theory Spec2Isabelle
  imports Main
begin

section \<open>Python values and exceptions\<close>

text \<open>
  The notebook \<^verbatim>\<open>Auth0_Bulk_User_Creation.ipynb\<close> is a sequence of Python functions.
  A Python \<^verbatim>\<open>str\<close> is modelled by the \<open>string\<close> of its UTF-8 bytes (one \<open>char\<close> per
  byte), so that \<^verbatim>\<open>s.encode("utf-8")\<close> is the identity and concatenation and equality of
  strings are those of the byte sequences. An \<^verbatim>\<open>Optional[str]\<close> argument is a
  \<open>string option\<close>, with \<open>None\<close> for Python's \<^verbatim>\<open>None\<close>. An exception that leaves a
  function is the \<open>Inl\<close> of a sum.
\<close>

type_synonym bytes = string

datatype py_error =
    AttributeError
  | UnicodeDecodeError
  | StopIteration
  | KeyError string
  | TypeError
  | JSONDecodeError
  | FileNotFoundError string
  | ValueError string
  | ConnectionNotFound
    \<comment> \<open>the error kind of the specification's error model; no statement of the notebook raises it\<close>

definition encode_utf8 :: "string \<Rightarrow> bytes" where
  "encode_utf8 s = s"

definition continuation :: "nat \<Rightarrow> bool" where
  "continuation b \<longleftrightarrow> 128 \<le> b \<and> b \<le> 191"

fun well_formed_utf8 :: "nat list \<Rightarrow> bool" where
  "well_formed_utf8 [] = True"
| "well_formed_utf8 (b # bs) =
     (if b < 128 then well_formed_utf8 bs
      else if 194 \<le> b \<and> b \<le> 223 then
        (case bs of
           c1 # rest \<Rightarrow> continuation c1 \<and> well_formed_utf8 rest
         | _ \<Rightarrow> False)
      else if 224 \<le> b \<and> b \<le> 239 then
        (case bs of
           c1 # c2 # rest \<Rightarrow>
             (if b = 224 then 160 \<le> c1 \<and> c1 \<le> 191
              else if b = 237 then 128 \<le> c1 \<and> c1 \<le> 159
              else continuation c1)
             \<and> continuation c2 \<and> well_formed_utf8 rest
         | _ \<Rightarrow> False)
      else if 240 \<le> b \<and> b \<le> 244 then
        (case bs of
           c1 # c2 # c3 # rest \<Rightarrow>
             (if b = 240 then 144 \<le> c1 \<and> c1 \<le> 191
              else if b = 244 then 128 \<le> c1 \<and> c1 \<le> 143
              else continuation c1)
             \<and> continuation c2 \<and> continuation c3 \<and> well_formed_utf8 rest
         | _ \<Rightarrow> False)
      else False)"

definition decode_utf8 :: "bytes \<Rightarrow> py_error + string" where
  \<comment> \<open>\<^verbatim>\<open>b.decode("utf-8")\<close>: strict decoding, an ill-formed sequence raises\<close>
  "decode_utf8 b =
     (if well_formed_utf8 (map of_char b) then Inr b else Inl UnicodeDecodeError)"

section \<open>Formatting the index: \<^verbatim>\<open>{i:02d}\<close>\<close>

definition digit_char :: "nat \<Rightarrow> char" where
  "digit_char d = ''0123456789'' ! d"

fun decimal :: "nat \<Rightarrow> string" where
  "decimal n =
     (if n < 10 then [digit_char n] else decimal (n div 10) @ [digit_char (n mod 10)])"

declare decimal.simps [simp del]

definition format_02d :: "int \<Rightarrow> string" where
  \<comment> \<open>sign, then zeros up to a total width of two, then all the digits\<close>
  "format_02d i =
     (let sign = (if i < 0 then ''-'' else '''');
          digits = decimal (nat \<bar>i\<bar>)
      in sign @ replicate (2 - (length sign + length digits)) CHR ''0'' @ digits)"



section \<open>Password hashing and user records\<close>

text \<open>
  The bcrypt package is not part of the repository: its two functions are parameters.
  \<open>gensalt\<close> draws a salt from a source of randomness \<open>'r\<close>, which it returns advanced;
  \<open>hashpw\<close> is a function of the password bytes and the salt, and may raise.
\<close>

record 'r bcrypt =
  gensalt :: "nat \<Rightarrow> 'r \<Rightarrow> bytes \<times> 'r"
  hashpw :: "bytes \<Rightarrow> bytes \<Rightarrow> py_error + bytes"

definition hash_password :: "'r bcrypt \<Rightarrow> string option \<Rightarrow> 'r \<Rightarrow> (py_error + string) \<times> 'r" where
  "hash_password lib password r =
     (case gensalt lib 10 r of
        (salt, r') \<Rightarrow>
          (case password of
             None \<Rightarrow> (Inl AttributeError, r')
           | Some p \<Rightarrow>
               (case hashpw lib (encode_utf8 p) salt of
                  Inl e \<Rightarrow> (Inl e, r')
                | Inr hashed_password \<Rightarrow> (decode_utf8 hashed_password, r'))))"

record user =
  email :: string
  email_verified :: bool
  password_hash :: string
  name :: string
  nickname :: string
  username :: string

definition create_user ::
  "'r bcrypt \<Rightarrow> string \<Rightarrow> string \<Rightarrow> string option \<Rightarrow> int \<Rightarrow> 'r \<Rightarrow> (py_error + user) \<times> 'r" where
  "create_user lib prefix domain password i r =
     (let uname = prefix @ ''_'' @ format_02d i;
          password = (case password of None \<Rightarrow> Some uname | Some p \<Rightarrow> Some p)
      in case hash_password lib password r of
           (Inl e, r') \<Rightarrow> (Inl e, r')
         | (Inr h, r') \<Rightarrow>
             (Inr \<lparr>email = uname @ ''@'' @ domain,
                   email_verified = True,
                   password_hash = h,
                   name = uname @ ''@'' @ domain,
                   nickname = uname,
                   username = uname\<rparr>, r'))"





text \<open>A stand-in for the library that accepts every password, for concrete runs.\<close>

definition stub_bcrypt :: "nat bcrypt" where
  "stub_bcrypt =
     \<lparr>gensalt = (\<lambda>rounds r. (''$2b$'' @ decimal rounds @ ''$'' @ decimal r, Suc r)),
      hashpw = (\<lambda>password salt. Inr ''$2b$10$stub'')\<rparr>"


section \<open>JSON documents, requests and responses\<close>

text \<open>
  \<^verbatim>\<open>response.json()\<close> yields Python values built from lists, dictionaries, strings, numbers,
  booleans and \<^verbatim>\<open>None\<close>. A dictionary keeps its entries in order; a lookup takes the first
  entry with the key. Numbers are integers here.
\<close>

datatype json =
    JNull
  | JBool bool
  | JNum int
  | JStr string
  | JArr "json list"
  | JObj "(string \<times> json) list"

fun subscript :: "json \<Rightarrow> string \<Rightarrow> py_error + json" where
  \<comment> \<open>\<^verbatim>\<open>value[key]\<close> with a string key: only a dictionary has one\<close>
  "subscript (JObj entries) key =
     (case map_of entries key of None \<Rightarrow> Inl (KeyError key) | Some v \<Rightarrow> Inr v)"
| "subscript _ key = Inl TypeError"

fun iterate :: "json \<Rightarrow> py_error + json list" where
  \<comment> \<open>\<^verbatim>\<open>for x in value\<close>: the elements of a list, the keys of a dictionary, the
      characters of a string (one per byte here); anything else is not iterable\<close>
  "iterate (JArr elements) = Inr elements"
| "iterate (JObj entries) = Inr (map (\<lambda>entry. JStr (fst entry)) entries)"
| "iterate (JStr s) = Inr (map (\<lambda>c. JStr [c]) s)"
| "iterate _ = Inl TypeError"

text \<open>
  An f-string or the arguments of \<^verbatim>\<open>print\<close>, kept as the sequence of its pieces: Python's
  \<^verbatim>\<open>str()\<close> of an interpolated value is not computed.
\<close>

datatype piece = Lit string | Num int | Val json

datatype part =
    File_part string bytes string  \<comment> \<open>file name, content, content type\<close>
  | Form_field string

record request =
  meth :: string
  url :: "piece list"
  headers :: "(string \<times> string) list"
  params :: "(string \<times> string) list"
  files :: "(string \<times> part) list"

record response =
  status_code :: int
  text' :: string
  parsed :: "json option"  \<comment> \<open>what \<^verbatim>\<open>json()\<close> parses from the body, \<open>None\<close> when it is not JSON\<close>

definition response_json :: "response \<Rightarrow> py_error + json" where
  "response_json r = (case parsed r of None \<Rightarrow> Inl JSONDecodeError | Some j \<Rightarrow> Inr j)"

text \<open>
  The remote service answers the \<open>n\<close>-th request made to it. The world records how many
  requests were served and everything the program did that can be observed from outside.
\<close>

datatype event = Request request | Sleep int | Print "piece list"

type_synonym server = "nat \<Rightarrow> request \<Rightarrow> response"

record world =
  served :: nat
  log :: "event list"

definition send :: "server \<Rightarrow> request \<Rightarrow> world \<Rightarrow> response \<times> world" where
  \<comment> \<open>\<^verbatim>\<open>requests.get\<close> and \<^verbatim>\<open>requests.post\<close>\<close>
  "send srv req w =
     (srv (served w) req, w\<lparr>served := Suc (served w), log := log w @ [Request req]\<rparr>)"

definition print :: "piece list \<Rightarrow> world \<Rightarrow> world" where
  "print line w = w\<lparr>log := log w @ [Print line]\<rparr>"

definition time_sleep :: "int \<Rightarrow> world \<Rightarrow> world" where
  "time_sleep seconds w = w\<lparr>log := log w @ [Sleep seconds]\<rparr>"

section \<open>Resolving the connection\<close>

fun next_id :: "json list \<Rightarrow> string \<Rightarrow> py_error + json" where
  \<comment> \<open>\<^verbatim>\<open>next(conn["id"] for conn in connections if conn["name"] == connection_name)\<close>\<close>
  "next_id [] connection_name = Inl StopIteration"
| "next_id (conn # rest) connection_name =
     (case subscript conn ''name'' of
        Inl e \<Rightarrow> Inl e
      | Inr v \<Rightarrow>
          if v = JStr connection_name then subscript conn ''id''
          else next_id rest connection_name)"

definition connections_request :: "string \<Rightarrow> string \<Rightarrow> request" where
  "connections_request domain access_token =
     \<lparr>meth = ''GET'',
      url = [Lit (''https://'' @ domain @ ''/api/v2/connections'')],
      headers = [(''Authorization'', ''Bearer '' @ access_token)],
      params = [(''strategy'', ''auth0'')],
      files = []\<rparr>"

definition get_connection_id ::
  "server \<Rightarrow> string \<Rightarrow> string \<Rightarrow> string \<Rightarrow> world \<Rightarrow> (py_error + json \<times> json) \<times> world" where
  "get_connection_id srv domain access_token connection_name w =
     (case send srv (connections_request domain access_token) w of
        (response, w') \<Rightarrow>
          (case response_json response of
             Inl e \<Rightarrow> (Inl e, w')
           | Inr connections \<Rightarrow>
               (case iterate connections of
                  Inl e \<Rightarrow> (Inl e, w')
                | Inr conns \<Rightarrow>
                    (case next_id conns connection_name of
                       Inl e \<Rightarrow> (Inl e, w')
                     | Inr conn_id \<Rightarrow>
                         (case response_json response of
                            Inl e \<Rightarrow> (Inl e, w')
                          | Inr listing \<Rightarrow> (Inr (conn_id, listing), w'))))))"

text \<open>The specification's wording of the lookup, for comparison.\<close>

definition has_name :: "string \<Rightarrow> json \<Rightarrow> bool" where
  "has_name connection_name conn \<longleftrightarrow> subscript conn ''name'' = Inr (JStr connection_name)"

definition resolve_connection_spec :: "json list \<Rightarrow> string \<Rightarrow> py_error + json" where
  "resolve_connection_spec conns connection_name =
     (case find (has_name connection_name) conns of
        None \<Rightarrow> Inl ConnectionNotFound
      | Some conn \<Rightarrow> subscript conn ''id'')"

definition is_connection :: "json \<Rightarrow> bool" where
  \<comment> \<open>an entry of the listing: a dictionary with an id and a name\<close>
  "is_connection conn \<longleftrightarrow>
     (case conn of
        JObj entries \<Rightarrow> map_of entries ''id'' \<noteq> None \<and> map_of entries ''name'' \<noteq> None
      | _ \<Rightarrow> False)"

section \<open>Submitting the import job\<close>

text \<open>
  Both remote operations return either a parsed JSON document or, after a failure status,
  the response object itself.
\<close>

datatype returned = Job json | Failed_response response

definition import_request ::
  "string \<Rightarrow> bytes \<Rightarrow> string \<Rightarrow> string \<Rightarrow> string \<Rightarrow> string option \<Rightarrow> request" where
  "import_request filename f connection_id domain access_token external_id =
     \<lparr>meth = ''POST'',
      url = [Lit (''https://'' @ domain @ ''/api/v2/jobs/users-imports'')],
      headers = [(''Authorization'', ''Bearer '' @ access_token)],
      params = [],
      files =
        [(''users'', File_part filename f ''application/json''),
         (''connection_id'', Form_field connection_id),
         (''send_completion_email'', Form_field ''false'')]
        @ (case external_id of
             None \<Rightarrow> []
           | Some x \<Rightarrow> if x \<noteq> [] then [(''external_id'', Form_field x)] else [])\<rparr>"

definition cross_mark :: string where
  \<comment> \<open>U+274C, the first character of both error messages\<close>
  "cross_mark = [char_of (226::nat), char_of (157::nat), char_of (140::nat)]"

definition start_import_job ::
  "(string \<Rightarrow> bytes option) \<Rightarrow> server \<Rightarrow> string \<Rightarrow> string \<Rightarrow> string \<Rightarrow> string \<Rightarrow> string option
     \<Rightarrow> world \<Rightarrow> (py_error + returned) \<times> world" where
  "start_import_job fs srv filename connection_id domain access_token external_id w =
     (case fs filename of
        None \<Rightarrow> (Inl (FileNotFoundError filename), w)
      | Some f \<Rightarrow>
          (case send srv
                  (import_request filename f connection_id domain access_token external_id) w of
             (response, w') \<Rightarrow>
               if status_code response = 200 \<or> status_code response = 202 then
                 (case response_json response of
                    Inl e \<Rightarrow> (Inl e, w')
                  | Inr job \<Rightarrow>
                      (Inr (Job job), print [Lit ''Import job started successfully.''] w'))
               else
                 (Inr (Failed_response response),
                  print [Num (status_code response), Lit (text' response)]
                    (print [Lit (cross_mark @ '' Error during users-imports:'')] w'))))"

section \<open>Polling the job\<close>

definition status_request :: "json \<Rightarrow> string \<Rightarrow> string \<Rightarrow> request" where
  "status_request job_id domain access_token =
     \<lparr>meth = ''GET'',
      url = [Lit (''https://'' @ domain @ ''/api/v2/jobs/''), Val job_id],
      headers = [(''Authorization'', ''Bearer '' @ access_token)],
      params = [],
      files = []\<rparr>"

text \<open>
  The \<^verbatim>\<open>while pending\<close> loop. It ends by an exception, by the early \<^verbatim>\<open>return response\<close>
  (\<open>Inr (Inl response)\<close>) or with the last job status read (\<open>Inr (Inr job_status)\<close>);
  against a service that answers ``pending'' for ever it does not end, which is \<open>None\<close>.
\<close>

partial_function (option) while_pending ::
  "server \<Rightarrow> request \<Rightarrow> world \<Rightarrow> ((py_error + response + json) \<times> world) option" where
  "while_pending srv req w =
     (case send srv req w of
        (response, w1) \<Rightarrow>
          if status_code response = 200 then
            (case response_json response of
               Inl e \<Rightarrow> Some (Inl e, w1)
             | Inr job_status \<Rightarrow>
                 (case subscript job_status ''status'' of
                    Inl e \<Rightarrow> Some (Inl e, w1)
                  | Inr status \<Rightarrow>
                      if status = JStr ''pending'' then
                        while_pending srv req
                          (time_sleep 5
                             (print [Lit ''Waiting for job to complete... (5 seconds)''] w1))
                      else Some (Inr (Inr job_status), w1)))
          else
            Some (Inr (Inl response),
                  print [Num (status_code response), Lit (text' response)]
                    (print [Lit (cross_mark @ '' Error during job status check:'')] w1)))"

definition summarise :: "json \<Rightarrow> world \<Rightarrow> (py_error + returned) \<times> world" where
  \<comment> \<open>the three \<^verbatim>\<open>print\<close> calls after the loop, and \<^verbatim>\<open>return job_status\<close>\<close>
  "summarise job_status w =
     (case subscript job_status ''id'' of
        Inl e \<Rightarrow> (Inl e, w)
      | Inr job_id \<Rightarrow>
          (case subscript job_status ''status'' of
             Inl e \<Rightarrow> (Inl e, print [Lit ''Job id: '', Val job_id] w)
           | Inr status \<Rightarrow>
               (case subscript job_status ''summary'' of
                  Inl e \<Rightarrow>
                    (Inl e,
                     print [Lit ''Job status: '', Val status]
                       (print [Lit ''Job id: '', Val job_id] w))
                | Inr summary \<Rightarrow>
                    (Inr (Job job_status),
                     print [Lit ''Job summary: '', Val summary]
                       (print [Lit ''Job status: '', Val status]
                          (print [Lit ''Job id: '', Val job_id] w))))))"

definition check_job_status ::
  "server \<Rightarrow> json \<Rightarrow> string \<Rightarrow> string \<Rightarrow> string \<Rightarrow> int \<Rightarrow> world
     \<Rightarrow> ((py_error + returned) \<times> world) option" where
  "check_job_status srv job connection_id domain access_token sleep w =
     (case subscript job ''id'' of
        Inl e \<Rightarrow> Some (Inl e, w)
      | Inr job_id \<Rightarrow>
          (case while_pending srv (status_request job_id domain access_token) w of
             None \<Rightarrow> None
           | Some (Inl e, w') \<Rightarrow> Some (Inl e, w')
           | Some (Inr (Inl response), w') \<Rightarrow> Some (Inr (Failed_response response), w')
           | Some (Inr (Inr job_status), w') \<Rightarrow> Some (summarise job_status w')))"

section \<open>Concrete worlds for running the model\<close>

definition fresh_world :: world where
  "fresh_world = \<lparr>served = 0, log = []\<rparr>"

definition scripted :: "response list \<Rightarrow> response \<Rightarrow> server" where
  \<comment> \<open>a service that gives the scripted answers in turn and then the final one for ever\<close>
  "scripted script final n req = (if n < length script then script ! n else final)"

definition answer :: "int \<Rightarrow> json \<Rightarrow> response" where
  \<comment> \<open>a response with a JSON body; the body text is left empty\<close>
  "answer code document = \<lparr>status_code = code, text' = [], parsed = Some document\<rparr>"

definition unauthorized :: response where
  "unauthorized = \<lparr>status_code = 401, text' = ''Unauthorized'', parsed = None\<rparr>"

definition sample_files :: "string \<Rightarrow> bytes option" where
  "sample_files path = (if path = ''imfake_users.json'' then Some ''[]'' else None)"

definition sample_listing :: json where
  "sample_listing =
     JArr [JObj [(''id'', JStr ''con_1''), (''name'', JStr ''Initial-Connection'')],
           JObj [(''id'', JStr ''con_2''), (''name'', JStr ''Username-Password-Authentication'')],
           JObj [(''id'', JStr ''con_3''), (''name'', JStr ''Username-Password-Authentication'')]]"

definition pending_job :: json where
  "pending_job = JObj [(''id'', JStr ''job_1''), (''status'', JStr ''pending'')]"

definition completed_job :: json where
  "completed_job =
     JObj [(''id'', JStr ''job_1''), (''status'', JStr ''completed''),
           (''summary'', JObj [(''failed'', JNum 0), (''inserted'', JNum 1)])]"

text \<open>The observations the claims about polling speak of.\<close>

definition answers_pending :: "response \<Rightarrow> bool" where
  "answers_pending r \<longleftrightarrow>
     status_code r = 200
     \<and> (case parsed r of
          None \<Rightarrow> False
        | Some job_status \<Rightarrow> subscript job_status ''status'' = Inr (JStr ''pending''))"

definition waiting_round :: "request \<Rightarrow> event list" where
  \<comment> \<open>what one pass through the loop body leaves in the log while the job is pending\<close>
  "waiting_round req =
     [Request req, Print [Lit ''Waiting for job to complete... (5 seconds)''], Sleep 5]"

section \<open>Properties of the generated records\<close>




























text \<open>
  Claim C8. When \<open>create_user\<close> is called without a password (\<open>None\<close>), the plaintext it
  hashes is the generated username: the call equals the call with the username as the
  explicit password, and the \<open>password_hash\<close> of the record is what \<open>hash_password\<close>
  returns for the record's username.
\<close>

theorem default_password_is_username:
  "create_user lib P D None i r = create_user lib P D (Some (P @ ''_'' @ format_02d i)) i r
   \<and> (\<forall>u r'. create_user lib P D None i r = (Inr u, r') \<longrightarrow>
         username u = P @ ''_'' @ format_02d i
         \<and> hash_password lib (Some (username u)) r = (Inr (password_hash u), r'))"
  by (auto simp: create_user_def Let_def split: prod.splits sum.splits)

theorem default_password_is_username_witness:
  "create_user stub_bcrypt ''imfake'' ''test.edu'' None 1 (0::nat) =
     (Inr \<lparr>email = ''imfake_01@test.edu'', email_verified = True,
           password_hash = ''$2b$10$stub'', name = ''imfake_01@test.edu'',
           nickname = ''imfake_01'', username = ''imfake_01''\<rparr>, 1)
   \<and> hash_password stub_bcrypt (Some ''imfake_01'') (0::nat) = (Inr ''$2b$10$stub'', 1)"
proof -
  have run: "create_user stub_bcrypt ''imfake'' ''test.edu'' None 1 (0::nat) =
     (Inr \<lparr>email = ''imfake_01@test.edu'', email_verified = True,
           password_hash = ''$2b$10$stub'', name = ''imfake_01@test.edu'',
           nickname = ''imfake_01'', username = ''imfake_01''\<rparr>, 1)"
    by code_simp
  have "format_02d 1 = ''01''"
    by (simp add: format_02d_def decimal.simps digit_char_def Let_def)
  with run default_password_is_username [of stub_bcrypt "''imfake''" "''test.edu''" 1 0]
  show ?thesis by fastforce
qed



text \<open>
  Claim C7, amended. \<open>hash_password\<close> raises (an AttributeError) when its input is
  \<open>None\<close>. For the empty string it makes no check of its own: the result is the decoded
  result of \<open>hashpw\<close> on the empty byte string and the salt just drawn, and it fails only
  where that library call or the decoding fails.
\<close>

theorem hash_password_none_and_empty:
  "fst (hash_password lib None r) = Inl AttributeError
   \<and> fst (hash_password lib (Some '''') r) =
       (case hashpw lib '''' (fst (gensalt lib 10 r)) of
          Inl e \<Rightarrow> Inl e
        | Inr hashed_password \<Rightarrow> decode_utf8 hashed_password)"
  by (simp add: hash_password_def encode_utf8_def split: prod.splits sum.splits)

text \<open>
  With a library that accepts the empty password, as bcrypt does, the empty string is
  hashed and a hash string is returned.
\<close>

theorem hash_password_empty_counterexample:
  "fst (hash_password stub_bcrypt (Some '''') (0::nat)) = Inr ''$2b$10$stub''"
  by code_simp

section \<open>Properties of the connection lookup\<close>

lemma next_id_Inr:
  "next_id conns cname = Inr cid \<Longrightarrow>
     \<exists>before conn after. conns = before @ conn # after \<and> has_name cname conn
        \<and> (\<forall>c\<in>set before. \<not> has_name cname c) \<and> subscript conn ''id'' = Inr cid"
proof (induction conns)
  case Nil
  then show ?case by simp
next
  case (Cons c rest)
  show ?case
  proof (cases "has_name cname c")
    case True
    with Cons.prems have "subscript c ''id'' = Inr cid"
      by (simp add: has_name_def)
    with True have "c # rest = [] @ c # rest \<and> has_name cname c
        \<and> (\<forall>x\<in>set []. \<not> has_name cname x) \<and> subscript c ''id'' = Inr cid"
      by simp
    then show ?thesis by blast
  next
    case False
    with Cons.prems have "next_id rest cname = Inr cid"
      by (auto simp: has_name_def split: sum.splits if_splits)
    from Cons.IH [OF this] obtain before conn after where
      "rest = before @ conn # after" "has_name cname conn"
      "\<forall>x\<in>set before. \<not> has_name cname x" "subscript conn ''id'' = Inr cid"
      by blast
    with False have "c # rest = (c # before) @ conn # after \<and> has_name cname conn
        \<and> (\<forall>x\<in>set (c # before). \<not> has_name cname x) \<and> subscript conn ''id'' = Inr cid"
      by simp
    then show ?thesis by blast
  qed
qed

lemma next_id_strings: "next_id (map (\<lambda>x. JStr (f x)) xs) cname \<noteq> Inr cid"
  by (cases xs) simp_all

lemma next_id_listing:
  assumes "\<forall>c\<in>set conns. is_connection c"
  shows "next_id conns cname =
           (case find (has_name cname) conns of
              None \<Rightarrow> Inl StopIteration
            | Some conn \<Rightarrow> subscript conn ''id'')"
  using assms
proof (induction conns)
  case Nil
  then show ?case by simp
next
  case (Cons c rest)
  then have "is_connection c" by simp
  then obtain entries v where "c = JObj entries" "map_of entries ''name'' = Some v"
    by (auto simp: is_connection_def split: json.splits)
  with Cons show ?case
    by (auto simp: has_name_def)
qed

lemma is_connection_id: "is_connection c \<Longrightarrow> \<exists>cid. subscript c ''id'' = Inr cid"
  by (auto simp: is_connection_def split: json.splits)

text \<open>
  Claim C5, amended. For a listing whose entries are connections (dictionaries with an id
  and a name), \<open>get_connection_id\<close> returns the id of the first entry whose name equals
  the requested name when there is one; when no entry has the name it ends with Python's
  StopIteration, raised by \<^verbatim>\<open>next\<close> on the exhausted generator.
\<close>

theorem get_connection_id_first_match:
  assumes "parsed (srv (served w) (connections_request domain access_token)) = Some (JArr conns)"
    and "\<forall>c\<in>set conns. is_connection c"
  shows "(\<forall>conn. find (has_name cname) conns = Some conn \<longrightarrow>
            (\<exists>cid. subscript conn ''id'' = Inr cid
               \<and> fst (get_connection_id srv domain access_token cname w) = Inr (cid, JArr conns)))
       \<and> (find (has_name cname) conns = None \<longrightarrow>
            fst (get_connection_id srv domain access_token cname w) = Inl StopIteration)"
proof -
  have run: "fst (get_connection_id srv domain access_token cname w) =
      (case next_id conns cname of Inl e \<Rightarrow> Inl e | Inr cid \<Rightarrow> Inr (cid, JArr conns))"
    using assms(1)
    by (simp add: get_connection_id_def send_def response_json_def split: sum.splits)
  have "\<exists>cid. subscript conn ''id'' = Inr cid" if "find (has_name cname) conns = Some conn" for conn
    using that assms(2) by (auto simp: find_Some_iff intro: is_connection_id)
  then show ?thesis
    unfolding run next_id_listing [OF assms(2)]
    by (auto split: option.splits)
qed

theorem get_connection_id_first_match_witness:
  "fst (get_connection_id (scripted [] (answer 200 sample_listing)) ''tenant.auth0.com'' ''token''
          ''Username-Password-Authentication'' fresh_world) = Inr (JStr ''con_2'', sample_listing)
   \<and> fst (get_connection_id (scripted [] (answer 200 sample_listing)) ''tenant.auth0.com'' ''token''
          ''google-oauth2'' fresh_world) = Inl StopIteration"
proof -
  let ?srv = "scripted [] (answer 200 sample_listing)"
  let ?conns = "[JObj [(''id'', JStr ''con_1''), (''name'', JStr ''Initial-Connection'')],
           JObj [(''id'', JStr ''con_2''), (''name'', JStr ''Username-Password-Authentication'')],
           JObj [(''id'', JStr ''con_3''), (''name'', JStr ''Username-Password-Authentication'')]]"
  have p: "parsed (?srv (served fresh_world) (connections_request ''tenant.auth0.com'' ''token''))
             = Some (JArr ?conns)"
    by (simp add: scripted_def answer_def sample_listing_def)
  have c: "\<forall>c\<in>set ?conns. is_connection c"
    by (simp add: is_connection_def)
  have f1: "find (has_name ''Username-Password-Authentication'') ?conns
              = Some (JObj [(''id'', JStr ''con_2''), (''name'', JStr ''Username-Password-Authentication'')])"
    by (simp add: has_name_def)
  have f2: "find (has_name ''google-oauth2'') ?conns = None"
    by (simp add: has_name_def)
  note first_match = get_connection_id_first_match
    [where srv = ?srv and w = fresh_world and conns = ?conns, OF p c]
  from first_match [of "''Username-Password-Authentication''"] f1
    first_match [of "''google-oauth2''"] f2
  show ?thesis
    by (simp add: sample_listing_def)
qed

text \<open>
  When no entry has the requested name the call ends with Python's StopIteration, where
  the specification's lookup answers with its ``connection not found'' error.
\<close>

theorem get_connection_id_not_found_counterexample:
  "fst (get_connection_id (scripted [] (answer 200 sample_listing)) ''tenant.auth0.com'' ''token''
          ''google-oauth2'' fresh_world) = Inl StopIteration
   \<and> resolve_connection_spec
        [JObj [(''id'', JStr ''con_1''), (''name'', JStr ''Initial-Connection'')],
         JObj [(''id'', JStr ''con_2''), (''name'', JStr ''Username-Password-Authentication'')],
         JObj [(''id'', JStr ''con_3''), (''name'', JStr ''Username-Password-Authentication'')]]
        ''google-oauth2'' = Inl ConnectionNotFound"
  by (simp add: get_connection_id_def send_def scripted_def answer_def sample_listing_def
        response_json_def fresh_world_def resolve_connection_spec_def has_name_def)

text \<open>
  Claim C10. Whenever \<open>get_connection_id\<close> returns, it returns a pair: the second
  component is the whole parsed connection list of the response, a list in which the first
  entry with the requested name has the first component as its id.
\<close>

theorem get_connection_id_pair:
  assumes "fst (get_connection_id srv domain access_token cname w) = Inr (cid, listing)"
  shows "parsed (srv (served w) (connections_request domain access_token)) = Some listing
       \<and> (\<exists>before conn after. listing = JArr (before @ conn # after)
             \<and> has_name cname conn \<and> (\<forall>c\<in>set before. \<not> has_name cname c)
             \<and> subscript conn ''id'' = Inr cid)"
proof -
  let ?r = "srv (served w) (connections_request domain access_token)"
  from assms obtain conns where
    p: "parsed ?r = Some listing" and it: "iterate listing = Inr conns"
    and nx: "next_id conns cname = Inr cid"
    by (auto simp: get_connection_id_def send_def response_json_def
             split: sum.splits option.splits)
  from it nx have "listing = JArr conns"
    by (cases listing) (auto simp: next_id_strings)
  with p next_id_Inr [OF nx] show ?thesis
    by blast
qed

theorem get_connection_id_pair_witness:
  "parsed (scripted [] (answer 200 sample_listing) (served fresh_world)
             (connections_request ''tenant.auth0.com'' ''token'')) = Some sample_listing
   \<and> (\<exists>before conn after. sample_listing = JArr (before @ conn # after)
         \<and> has_name ''Username-Password-Authentication'' conn
         \<and> (\<forall>c\<in>set before. \<not> has_name ''Username-Password-Authentication'' c)
         \<and> subscript conn ''id'' = Inr (JStr ''con_2''))"
proof -
  have "fst (get_connection_id (scripted [] (answer 200 sample_listing)) ''tenant.auth0.com''
          ''token'' ''Username-Password-Authentication'' fresh_world)
        = Inr (JStr ''con_2'', sample_listing)"
    by (simp add: get_connection_id_def send_def scripted_def answer_def sample_listing_def
          response_json_def fresh_world_def)
  from get_connection_id_pair [where w = fresh_world, OF this] show ?thesis .
qed

section \<open>Properties of the submission\<close>

text \<open>
  Claim C4. Once the payload file is open and the request is sent, \<open>start_import_job\<close>
  returns the parsed job descriptor of the response body when the status is 200 or 202;
  for any other status it hands the caller the response itself, which carries the status
  code and the body (both are also printed), and never a job descriptor. One request is
  sent in either case.
\<close>

theorem start_import_job_outcome:
  assumes "fs filename = Some f"
    and "req = import_request filename f connection_id domain access_token external_id"
    and "response = srv (served w) req"
  shows "(status_code response = 200 \<or> status_code response = 202 \<longrightarrow>
            (\<forall>job. parsed response = Some job \<longrightarrow>
               start_import_job fs srv filename connection_id domain access_token external_id w =
                 (Inr (Job job),
                  w\<lparr>served := Suc (served w),
                    log := log w @ [Request req, Print [Lit ''Import job started successfully.'']]\<rparr>)))
       \<and> (status_code response \<noteq> 200 \<and> status_code response \<noteq> 202 \<longrightarrow>
            start_import_job fs srv filename connection_id domain access_token external_id w =
              (Inr (Failed_response response),
               w\<lparr>served := Suc (served w),
                 log := log w @
                   [Request req,
                    Print [Lit (cross_mark @ '' Error during users-imports:'')],
                    Print [Num (status_code response), Lit (text' response)]]\<rparr>)
            \<and> (\<forall>job. fst (start_import_job fs srv filename connection_id domain access_token
                             external_id w) \<noteq> Inr (Job job)))"
  using assms
  by (simp add: start_import_job_def send_def response_json_def print_def)

theorem start_import_job_outcome_witness:
  "start_import_job sample_files (scripted [] (answer 202 pending_job)) ''imfake_users.json''
       ''con_2'' ''tenant.auth0.com'' ''token'' None fresh_world =
     (Inr (Job pending_job),
      \<lparr>served = 1,
       log = [Request (import_request ''imfake_users.json'' ''[]'' ''con_2'' ''tenant.auth0.com''
                         ''token'' None),
              Print [Lit ''Import job started successfully.'']]\<rparr>)
   \<and> start_import_job sample_files (scripted [] unauthorized) ''imfake_users.json''
       ''con_2'' ''tenant.auth0.com'' ''token'' None fresh_world =
     (Inr (Failed_response unauthorized),
      \<lparr>served = 1,
       log = [Request (import_request ''imfake_users.json'' ''[]'' ''con_2'' ''tenant.auth0.com''
                         ''token'' None),
              Print [Lit (cross_mark @ '' Error during users-imports:'')],
              Print [Num 401, Lit ''Unauthorized'']]\<rparr>)"
proof -
  have f: "sample_files ''imfake_users.json'' = Some ''[]''"
    by (simp add: sample_files_def)
  note outcome = start_import_job_outcome [where fs = sample_files
      and filename = "''imfake_users.json''" and f = "''[]''"
      and w = fresh_world and connection_id = "''con_2''"
      and domain = "''tenant.auth0.com''" and access_token = "''token''" and external_id = None,
      OF f refl refl]
  from outcome [of "scripted [] (answer 202 pending_job)"]
    outcome [of "scripted [] unauthorized"]
  show ?thesis
    by (simp add: scripted_def answer_def unauthorized_def fresh_world_def)
qed

section \<open>Properties of polling\<close>

lemma while_pending_round:
  assumes "answers_pending (srv (served w) req)"
  shows "while_pending srv req w =
           while_pending srv req
             (w\<lparr>served := Suc (served w), log := log w @ waiting_round req\<rparr>)"
  using assms
  by (subst while_pending.simps)
     (simp add: send_def answers_pending_def response_json_def print_def time_sleep_def
        waiting_round_def split: option.splits)

lemma while_pending_rounds:
  assumes "\<forall>j<k. answers_pending (srv (served w + j) req)"
  shows "while_pending srv req w =
           while_pending srv req
             (w\<lparr>served := served w + k,
                log := log w @ concat (replicate k (waiting_round req))\<rparr>)"
  using assms
proof (induction k arbitrary: w)
  case 0
  then show ?case by simp
next
  case (Suc k)
  let ?w1 = "w\<lparr>served := Suc (served w), log := log w @ waiting_round req\<rparr>"
  from Suc.prems have "answers_pending (srv (served w) req)"
    by (metis add.right_neutral zero_less_Suc)
  then have "while_pending srv req w = while_pending srv req ?w1"
    by (rule while_pending_round)
  also have "\<forall>j<k. answers_pending (srv (served ?w1 + j) req)"
    using Suc.prems by (metis Suc_less_eq add_Suc_shift world.select_convs(1)
        world.surjective world.update_convs(1) world.update_convs(2) add_Suc)
  then have "while_pending srv req ?w1 =
      while_pending srv req
        (?w1\<lparr>served := served ?w1 + k,
             log := log ?w1 @ concat (replicate k (waiting_round req))\<rparr>)"
    by (rule Suc.IH)
  finally show ?case
    by simp
qed

lemma while_pending_finished:
  assumes "status_code (srv (served w) req) = 200"
    and "parsed (srv (served w) req) = Some job_status"
    and "subscript job_status ''status'' = Inr status"
    and "status \<noteq> JStr ''pending''"
  shows "while_pending srv req w =
           Some (Inr (Inr job_status),
                 w\<lparr>served := Suc (served w), log := log w @ [Request req]\<rparr>)"
  using assms
  by (subst while_pending.simps) (simp add: send_def response_json_def)

lemma while_pending_failed:
  assumes "status_code (srv (served w) req) \<noteq> 200"
  shows "while_pending srv req w =
           Some (Inr (Inl (srv (served w) req)),
                 w\<lparr>served := Suc (served w),
                   log := log w @
                     [Request req,
                      Print [Lit (cross_mark @ '' Error during job status check:'')],
                      Print [Num (status_code (srv (served w) req)),
                             Lit (text' (srv (served w) req))]]\<rparr>)"
  using assms
  by (subst while_pending.simps) (simp add: send_def print_def)

lemma check_job_status_finished:
  assumes "subscript job ''id'' = Inr job_id"
    and "req = status_request job_id domain access_token"
    and "\<forall>j<k. answers_pending (srv (served w + j) req)"
    and "status_code (srv (served w + k) req) = 200"
    and "parsed (srv (served w + k) req) = Some job_status"
    and "subscript job_status ''status'' = Inr status"
    and "status \<noteq> JStr ''pending''"
    and "subscript job_status ''id'' = Inr i"
    and "subscript job_status ''summary'' = Inr s"
  shows "check_job_status srv job connection_id domain access_token sleep w =
           Some (Inr (Job job_status),
                 w\<lparr>served := served w + k + 1,
                   log := log w @ concat (replicate k (waiting_round req)) @
                     [Request req,
                      Print [Lit ''Job id: '', Val i],
                      Print [Lit ''Job status: '', Val status],
                      Print [Lit ''Job summary: '', Val s]]\<rparr>)"
proof -
  let ?wk = "w\<lparr>served := served w + k,
               log := log w @ concat (replicate k (waiting_round req))\<rparr>"
  have "while_pending srv req w = while_pending srv req ?wk"
    using assms(3) by (rule while_pending_rounds)
  also have "\<dots> = Some (Inr (Inr job_status),
      ?wk\<lparr>served := Suc (served ?wk), log := log ?wk @ [Request req]\<rparr>)"
    using assms(4-7) by (intro while_pending_finished) simp_all
  finally show ?thesis
    using assms(1,2,6,8,9)
    by (simp add: check_job_status_def summarise_def print_def)
qed

lemma check_job_status_failed:
  assumes "subscript job ''id'' = Inr job_id"
    and "req = status_request job_id domain access_token"
    and "\<forall>j<k. answers_pending (srv (served w + j) req)"
    and "status_code (srv (served w + k) req) \<noteq> 200"
  shows "check_job_status srv job connection_id domain access_token sleep w =
           Some (Inr (Failed_response (srv (served w + k) req)),
                 w\<lparr>served := served w + k + 1,
                   log := log w @ concat (replicate k (waiting_round req)) @
                     [Request req,
                      Print [Lit (cross_mark @ '' Error during job status check:'')],
                      Print [Num (status_code (srv (served w + k) req)),
                             Lit (text' (srv (served w + k) req))]]\<rparr>)"
proof -
  let ?wk = "w\<lparr>served := served w + k,
               log := log w @ concat (replicate k (waiting_round req))\<rparr>"
  have "while_pending srv req w = while_pending srv req ?wk"
    using assms(3) by (rule while_pending_rounds)
  also have "\<dots> = Some (Inr (Inl (srv (served ?wk) req)),
      ?wk\<lparr>served := Suc (served ?wk),
          log := log ?wk @
            [Request req,
             Print [Lit (cross_mark @ '' Error during job status check:'')],
             Print [Num (status_code (srv (served ?wk) req)),
                    Lit (text' (srv (served ?wk) req))]]\<rparr>)"
    using assms(4) by (intro while_pending_failed) simp
  finally show ?thesis
    using assms(1,2)
    by (simp add: check_job_status_def)
qed

text \<open>
  Claim C2. Let the first \<open>k\<close> answers to the status query be 200 with status ``pending''.
  If the next answer is 200 with another status (and the id and summary the code prints),
  \<open>check_job_status\<close> returns that job status after exactly \<open>k + 1\<close> queries: one query
  when \<open>k = 0\<close>. If the next answer is not 200, it stops there, after \<open>k + 1\<close> queries,
  and hands back the response with its status code and body instead of polling on.
\<close>

theorem check_job_status_polling:
  assumes "subscript job ''id'' = Inr job_id"
    and "req = status_request job_id domain access_token"
    and "\<forall>j<k. answers_pending (srv (served w + j) req)"
    and "response = srv (served w + k) req"
  shows "(status_code response = 200 \<longrightarrow>
            (\<forall>job_status status i s.
               parsed response = Some job_status
               \<and> subscript job_status ''status'' = Inr status \<and> status \<noteq> JStr ''pending''
               \<and> subscript job_status ''id'' = Inr i
               \<and> subscript job_status ''summary'' = Inr s \<longrightarrow>
               check_job_status srv job connection_id domain access_token sleep w =
                 Some (Inr (Job job_status),
                       w\<lparr>served := served w + k + 1,
                         log := log w @ concat (replicate k (waiting_round req)) @
                           [Request req,
                            Print [Lit ''Job id: '', Val i],
                            Print [Lit ''Job status: '', Val status],
                            Print [Lit ''Job summary: '', Val s]]\<rparr>)))
       \<and> (status_code response \<noteq> 200 \<longrightarrow>
            check_job_status srv job connection_id domain access_token sleep w =
              Some (Inr (Failed_response response),
                    w\<lparr>served := served w + k + 1,
                      log := log w @ concat (replicate k (waiting_round req)) @
                        [Request req,
                         Print [Lit (cross_mark @ '' Error during job status check:'')],
                         Print [Num (status_code response), Lit (text' response)]]\<rparr>))"
proof (intro conjI impI allI)
  fix job_status status i s
  assume "status_code response = 200"
    and "parsed response = Some job_status
       \<and> subscript job_status ''status'' = Inr status \<and> status \<noteq> JStr ''pending''
       \<and> subscript job_status ''id'' = Inr i
       \<and> subscript job_status ''summary'' = Inr s"
  with assms show "check_job_status srv job connection_id domain access_token sleep w =
      Some (Inr (Job job_status),
            w\<lparr>served := served w + k + 1,
              log := log w @ concat (replicate k (waiting_round req)) @
                [Request req,
                 Print [Lit ''Job id: '', Val i],
                 Print [Lit ''Job status: '', Val status],
                 Print [Lit ''Job summary: '', Val s]]\<rparr>)"
    by (intro check_job_status_finished [where job_id = job_id]) simp_all
next
  assume "status_code response \<noteq> 200"
  with assms show "check_job_status srv job connection_id domain access_token sleep w =
      Some (Inr (Failed_response response),
            w\<lparr>served := served w + k + 1,
              log := log w @ concat (replicate k (waiting_round req)) @
                [Request req,
                 Print [Lit (cross_mark @ '' Error during job status check:'')],
                 Print [Num (status_code response), Lit (text' response)]]\<rparr>)"
    using check_job_status_failed [of job job_id req domain access_token k srv w connection_id sleep]
    by simp
qed

theorem check_job_status_polling_witness:
  "check_job_status (scripted [] (answer 200 completed_job)) pending_job ''con_2''
       ''tenant.auth0.com'' ''token'' 5 fresh_world =
     Some (Inr (Job completed_job),
       \<lparr>served = 1,
        log = [Request (status_request (JStr ''job_1'') ''tenant.auth0.com'' ''token''),
               Print [Lit ''Job id: '', Val (JStr ''job_1'')],
               Print [Lit ''Job status: '', Val (JStr ''completed'')],
               Print [Lit ''Job summary: '',
                      Val (JObj [(''failed'', JNum 0), (''inserted'', JNum 1)])]]\<rparr>)
   \<and> check_job_status (scripted [answer 200 pending_job, answer 200 pending_job] unauthorized)
       pending_job ''con_2'' ''tenant.auth0.com'' ''token'' 5 fresh_world =
     Some (Inr (Failed_response unauthorized),
       \<lparr>served = 3,
        log = waiting_round (status_request (JStr ''job_1'') ''tenant.auth0.com'' ''token'')
              @ waiting_round (status_request (JStr ''job_1'') ''tenant.auth0.com'' ''token'')
              @ [Request (status_request (JStr ''job_1'') ''tenant.auth0.com'' ''token''),
                 Print [Lit (cross_mark @ '' Error during job status check:'')],
                 Print [Num 401, Lit ''Unauthorized'']]\<rparr>)"
proof -
  let ?req = "status_request (JStr ''job_1'') ''tenant.auth0.com'' ''token''"
  let ?once = "scripted [] (answer 200 completed_job)"
  let ?twice = "scripted [answer 200 pending_job, answer 200 pending_job] unauthorized"
  have job: "subscript pending_job ''id'' = Inr (JStr ''job_1'')"
    by (simp add: pending_job_def)
  have none: "\<forall>j<0. answers_pending (?once (served fresh_world + j) ?req)"
    by simp
  have two: "\<forall>j<2. answers_pending (?twice (served fresh_world + j) ?req)"
    by (simp add: scripted_def answer_def pending_job_def answers_pending_def fresh_world_def
          less_Suc_eq numeral_2_eq_2)
  have finished: "status_code (?once (served fresh_world + 0) ?req) = 200"
    "parsed (?once (served fresh_world + 0) ?req) = Some completed_job
       \<and> subscript completed_job ''status'' = Inr (JStr ''completed'')
       \<and> JStr ''completed'' \<noteq> JStr ''pending''
       \<and> subscript completed_job ''id'' = Inr (JStr ''job_1'')
       \<and> subscript completed_job ''summary''
           = Inr (JObj [(''failed'', JNum 0), (''inserted'', JNum 1)])"
    by (simp_all add: scripted_def answer_def completed_job_def)
  have failed: "?twice (served fresh_world + 2) ?req = unauthorized"
    "status_code unauthorized \<noteq> 200"
    by (simp_all add: scripted_def unauthorized_def fresh_world_def)
  from check_job_status_polling [where srv = ?once and w = fresh_world and k = 0
      and connection_id = "''con_2''" and sleep = 5, OF job refl none refl] finished
  have first: "check_job_status ?once pending_job ''con_2'' ''tenant.auth0.com'' ''token'' 5
      fresh_world =
     Some (Inr (Job completed_job),
       fresh_world\<lparr>served := served fresh_world + 0 + 1,
        log := log fresh_world @ concat (replicate 0 (waiting_round ?req)) @
              [Request ?req,
               Print [Lit ''Job id: '', Val (JStr ''job_1'')],
               Print [Lit ''Job status: '', Val (JStr ''completed'')],
               Print [Lit ''Job summary: '',
                      Val (JObj [(''failed'', JNum 0), (''inserted'', JNum 1)])]]\<rparr>)"
    by blast
  from check_job_status_polling [where srv = ?twice and w = fresh_world and k = 2
      and connection_id = "''con_2''" and sleep = 5, OF job refl two refl] failed
  have second: "check_job_status ?twice pending_job ''con_2'' ''tenant.auth0.com'' ''token'' 5
      fresh_world =
     Some (Inr (Failed_response unauthorized),
       fresh_world\<lparr>served := served fresh_world + 2 + 1,
        log := log fresh_world @ concat (replicate 2 (waiting_round ?req)) @
              [Request ?req,
               Print [Lit (cross_mark @ '' Error during job status check:'')],
               Print [Num (status_code unauthorized), Lit (text' unauthorized)]]\<rparr>)"
    by simp
  from first second show ?thesis
    by (simp add: fresh_world_def unauthorized_def numeral_2_eq_2)
qed

lemma check_job_status_sleep_unused:
  "check_job_status srv job connection_id domain access_token sleep w =
     check_job_status srv job connection_id domain access_token sleep' w"
  by (simp add: check_job_status_def)

text \<open>
  Claim C3 says that the wait between two consecutive status queries is the value passed
  as \<open>sleep\<close>. The loop calls \<^verbatim>\<open>time.sleep(5)\<close> whatever was passed: with \<open>sleep = 1\<close> and a
  service that answers ``pending'' once, the wait between the two queries is 5.
\<close>

theorem check_job_status_sleeps_five:
  "check_job_status (scripted [answer 200 pending_job] (answer 200 completed_job)) pending_job
       ''con_2'' ''tenant.auth0.com'' ''token'' 1 fresh_world =
     Some (Inr (Job completed_job),
       \<lparr>served = 2,
        log = [Request (status_request (JStr ''job_1'') ''tenant.auth0.com'' ''token''),
               Print [Lit ''Waiting for job to complete... (5 seconds)''],
               Sleep 5,
               Request (status_request (JStr ''job_1'') ''tenant.auth0.com'' ''token''),
               Print [Lit ''Job id: '', Val (JStr ''job_1'')],
               Print [Lit ''Job status: '', Val (JStr ''completed'')],
               Print [Lit ''Job summary: '',
                      Val (JObj [(''failed'', JNum 0), (''inserted'', JNum 1)])]]\<rparr>)"
proof -
  let ?req = "status_request (JStr ''job_1'') ''tenant.auth0.com'' ''token''"
  let ?srv = "scripted [answer 200 pending_job] (answer 200 completed_job)"
  have "check_job_status ?srv pending_job ''con_2'' ''tenant.auth0.com'' ''token'' 1 fresh_world =
     Some (Inr (Job completed_job),
       fresh_world\<lparr>served := served fresh_world + 1 + 1,
        log := log fresh_world @ concat (replicate 1 (waiting_round ?req)) @
              [Request ?req,
               Print [Lit ''Job id: '', Val (JStr ''job_1'')],
               Print [Lit ''Job status: '', Val (JStr ''completed'')],
               Print [Lit ''Job summary: '',
                      Val (JObj [(''failed'', JNum 0), (''inserted'', JNum 1)])]]\<rparr>)"
    by (rule check_job_status_finished [where job_id = "JStr ''job_1''"
          and status = "JStr ''completed''"])
       (simp_all add: scripted_def answer_def pending_job_def completed_job_def
          answers_pending_def fresh_world_def)
  then show ?thesis
    by (simp add: fresh_world_def waiting_round_def)
qed

end
